theory Spec2Isabelle
  imports Complex_Main
begin

section \<open>The timer engine (PomoTimer.ts)\<close>

subsection \<open>Data model\<close>

text \<open>The enum \<open>TimerState\<close>, in the order of the source.\<close>

datatype TimerState = Work | ShortBreak | LongBreak | Paused | Idle

text \<open>
  The interface \<open>PomodoroSettings\<close>. The durations are minutes. The source type is the
  JavaScript number; the settings form only produces whole numbers, so they are integers here.
\<close>

record PomodoroSettings =
  workTime :: int
  shortBreakTime :: int
  longBreakTime :: int
  longBreakInterval :: int
  autoStartBreaks :: bool
  autoStartPomodoros :: bool
  showDesktopNotification :: bool
  playSound :: bool
  showInStatusBar :: bool

definition DEFAULT_SETTINGS :: PomodoroSettings where
  "DEFAULT_SETTINGS =
     \<lparr>workTime = 25, shortBreakTime = 5, longBreakTime = 15, longBreakInterval = 4,
      autoStartBreaks = False, autoStartPomodoros = False, showDesktopNotification = True,
      playSound = True, showInStatusBar = False\<rparr>"

text \<open>
  The three callbacks handed to the constructor. An invocation is recorded together with what
  the callee can read from the engine at that instant (\<open>getState\<close>, \<open>getRemainingTime\<close>,
  \<open>getTotalTime\<close>, and whether the window still holds a countdown interval).
\<close>

datatype callback = OnTick int int | OnStateChange TimerState | OnTimerComplete

record glimpse =
  seenState :: TimerState
  seenRemaining :: int
  seenTotal :: int
  seenTicking :: bool

text \<open>
  The fields of the class \<open>PomoTimer\<close>. Times are integers: \<open>remainingTime\<close> and
  \<open>totalTime\<close> in seconds, \<open>targetTime\<close> in milliseconds (a reading of \<open>Date.now()\<close>),
  \<open>None\<close> for \<open>null\<close>.
\<close>

record PomoTimer =
  state :: TimerState
  prePauseState :: TimerState
  remainingTime :: int
  totalTime :: int
  targetTime :: "int option"
  intervalId :: "nat option"
  settings :: PomodoroSettings

text \<open>
  The engine together with the part of the host it acts on: the interval handles that the
  window currently holds (\<open>window.setInterval\<close> adds one, \<open>window.clearInterval\<close> removes
  one), the last handle the window issued (handles are positive and never reused), and the
  callbacks invoked so far, oldest first.
\<close>

record runtime = PomoTimer +
  handles :: "nat list"
  issued :: nat
  calls :: "(callback \<times> glimpse) list"

subsection \<open>Host primitives\<close>

definition setInterval :: "runtime \<Rightarrow> nat \<times> runtime" where
  "setInterval e =
     (Suc (issued e), e\<lparr>handles := handles e @ [Suc (issued e)], issued := Suc (issued e)\<rparr>)"

definition clearInterval :: "nat \<Rightarrow> runtime \<Rightarrow> runtime" where
  "clearInterval h e = e\<lparr>handles := removeAll h (handles e)\<rparr>"

text \<open>\<open>Math.ceil(d / 1000)\<close> for an integer number \<open>d\<close> of milliseconds.\<close>

definition ceil_ms :: "int \<Rightarrow> int" where
  "ceil_ms d = - ((- d) div 1000)"

definition look :: "runtime \<Rightarrow> glimpse" where
  "look e = \<lparr>seenState = state e, seenRemaining = remainingTime e, seenTotal = totalTime e,
             seenTicking = (handles e \<noteq> [])\<rparr>"

definition emit :: "callback \<Rightarrow> runtime \<Rightarrow> runtime" where
  "emit cb e = e\<lparr>calls := calls e @ [(cb, look e)]\<rparr>"

subsection \<open>Operations\<close>

text \<open>The constructor, with the field initialisers of the class.\<close>

definition PomoTimer_new :: "PomodoroSettings \<Rightarrow> runtime" where
  "PomoTimer_new s =
     \<lparr>state = Idle, prePauseState = Idle, remainingTime = 0, totalTime = 0, targetTime = None,
      intervalId = None, settings = s, handles = [], issued = 0, calls = []\<rparr>"

definition updateSettings :: "PomodoroSettings \<Rightarrow> runtime \<Rightarrow> runtime" where
  "updateSettings s e = e\<lparr>settings := s\<rparr>"

definition getState :: "runtime \<Rightarrow> TimerState" where
  "getState e = state e"

definition getRemainingTime :: "runtime \<Rightarrow> int" where
  "getRemainingTime e = remainingTime e"

definition getTotalTime :: "runtime \<Rightarrow> int" where
  "getTotalTime e = totalTime e"

definition isRunning :: "runtime \<Rightarrow> bool" where
  "isRunning e = (state e \<noteq> Idle \<and> state e \<noteq> Paused)"

text \<open>
  \<open>stop\<close>. The test \<open>if (this.intervalId)\<close> is JavaScript truthiness: a handle that is
  \<open>null\<close> or \<open>0\<close> is not cleared.
\<close>

definition stop :: "runtime \<Rightarrow> runtime" where
  "stop e =
     (let e1 = (case intervalId e of
                  None \<Rightarrow> e
                | Some h \<Rightarrow> if h \<noteq> 0 then (clearInterval h e)\<lparr>intervalId := None\<rparr> else e);
          e2 = e1\<lparr>state := Idle, remainingTime := 0, totalTime := 0, targetTime := None\<rparr>
      in emit (OnTick (remainingTime e2) (totalTime e2)) e2)"

definition reset :: "runtime \<Rightarrow> runtime" where
  "reset e = emit (OnTick 0 0) (stop e)"

text \<open>
  The body of the callback that \<open>start\<close> registers with \<open>window.setInterval\<close>; \<open>now\<close> is
  the reading of \<open>Date.now()\<close> inside it. \<open>if (!this.targetTime) return\<close> leaves on
  \<open>null\<close> and on \<open>0\<close>.
\<close>

definition onInterval :: "int \<Rightarrow> runtime \<Rightarrow> runtime" where
  "onInterval now e =
     (case targetTime e of
        None \<Rightarrow> e
      | Some t \<Rightarrow>
          if t = 0 then e
          else
            let diff = ceil_ms (t - now);
                e1 = e\<lparr>remainingTime := diff\<rparr>;
                e2 = emit (OnTick (remainingTime e1) (totalTime e1)) e1
            in if remainingTime e2 \<le> 0 then
                 let e3 = e2\<lparr>remainingTime := 0\<rparr>;
                     completedState = state e3;
                     e4 = stop e3;
                     e5 = emit OnTimerComplete e4
                 in emit (OnStateChange completedState) e5
               else e2)"

text \<open>
  \<open>start\<close>; \<open>now\<close> is the reading of \<open>Date.now()\<close>. The \<open>switch\<close> has no case for
  \<open>Paused\<close> and \<open>Idle\<close>; \<open>plugin.registerInterval\<close> returns the handle it is given.
\<close>

definition start :: "int \<Rightarrow> TimerState \<Rightarrow> runtime \<Rightarrow> runtime" where
  "start now s e =
     (if s = Idle \<or> s = Paused then e
      else
        let e1 = e\<lparr>state := s\<rparr>;
            e2 = (if remainingTime e1 \<le> 0 then
                    let e' = (case state e1 of
                                Work \<Rightarrow> e1\<lparr>remainingTime := workTime (settings e1) * 60\<rparr>
                              | ShortBreak \<Rightarrow> e1\<lparr>remainingTime := shortBreakTime (settings e1) * 60\<rparr>
                              | LongBreak \<Rightarrow> e1\<lparr>remainingTime := longBreakTime (settings e1) * 60\<rparr>
                              | _ \<Rightarrow> e1)
                    in e'\<lparr>totalTime := remainingTime e'\<rparr>
                  else e1);
            e3 = e2\<lparr>targetTime := Some (now + remainingTime e2 * 1000)\<rparr>;
            e4 = (case intervalId e3 of
                    None \<Rightarrow> e3
                  | Some h \<Rightarrow> if h \<noteq> 0 then clearInterval h e3 else e3);
            (h, e5) = setInterval e4;
            e6 = e5\<lparr>intervalId := Some h\<rparr>
        in emit (OnTick (remainingTime e6) (totalTime e6)) e6)"

definition pause :: "runtime \<Rightarrow> runtime" where
  "pause e =
     (case intervalId e of
        None \<Rightarrow> e
      | Some h \<Rightarrow>
          if h \<noteq> 0 \<and> state e \<noteq> Idle \<and> state e \<noteq> Paused then
            let e1 = (clearInterval h e)\<lparr>intervalId := None\<rparr>;
                e2 = e1\<lparr>prePauseState := state e1\<rparr>;
                e3 = e2\<lparr>state := Paused, targetTime := None\<rparr>
            in emit (OnTick (remainingTime e3) (totalTime e3)) e3
          else e)"

definition resume :: "int \<Rightarrow> runtime \<Rightarrow> runtime" where
  "resume now e = (if state e = Paused then start now (prePauseState e) e else e)"

text \<open>
  The window runs the callback of an interval only while it holds the interval's handle.
\<close>

definition fire :: "nat \<Rightarrow> int \<Rightarrow> runtime \<Rightarrow> runtime" where
  "fire h now e = (if h \<in> set (handles e) then onInterval now e else e)"

subsection \<open>Runs of the engine\<close>

text \<open>
  What can happen to an engine, each with the reading of the clock at that moment; \<open>pause\<close>,
  \<open>stop\<close>, \<open>reset\<close> and \<open>updateSettings\<close> do not read the clock.
\<close>

datatype command =
    Start TimerState
  | IntervalFires nat
  | Pause
  | Resume
  | Stop
  | Reset
  | UpdateSettings PomodoroSettings

fun exec :: "runtime \<Rightarrow> int \<times> command \<Rightarrow> runtime" where
  "exec e (now, Start s) = start now s e"
| "exec e (now, IntervalFires h) = fire h now e"
| "exec e (now, Pause) = pause e"
| "exec e (now, Resume) = resume now e"
| "exec e (now, Stop) = stop e"
| "exec e (now, Reset) = reset e"
| "exec e (now, UpdateSettings s) = updateSettings s e"

definition run :: "(int \<times> command) list \<Rightarrow> runtime \<Rightarrow> runtime" where
  "run script e = foldl exec e script"

inductive reachable :: "runtime \<Rightarrow> bool" where
  fresh: "reachable (PomoTimer_new s)"
| step: "reachable e \<Longrightarrow> reachable (exec e (now, c))"

text \<open>The last \<open>onTick\<close> arguments the host was given, if any callback was invoked.\<close>

definition reported :: "runtime \<Rightarrow> callback option" where
  "reported e = (if calls e = [] then None else Some (fst (last (calls e))))"

section \<open>The session sequencer (main.ts)\<close>

subsection \<open>Data model\<close>

text \<open>
  The one-shot callbacks that the plugin hands to \<open>setTimeout\<close>: the auto-start scheduled by
  \<open>advanceToNextMode\<close> (1000 ms) and the acknowledgement scheduled by \<open>onTimerComplete\<close>
  (10000 ms).
\<close>

datatype delayed = AutoStart | GraceExpiry

text \<open>
  The fields of \<open>PomodoroPlugin\<close> that the sequencing reads and writes, the one-shot
  callbacks that are pending with the instant each is due, and the texts shown with
  \<open>new Notice\<close>. The plugin and its timer hold the same settings object, so the plugin's
  \<open>this.settings\<close> is \<open>settings (timer p)\<close>. The header button, the panel, the sound and
  the desktop notification only produce output and are left out.
\<close>

record PomodoroPlugin =
  timer :: runtime
  currentMode :: TimerState
  completedPomodoros :: int
  nextMode :: TimerState
  isSessionComplete :: bool
  timeouts :: "(int \<times> delayed) list"
  notices :: "string list"

subsection \<open>Host primitives\<close>

text \<open>
  The remainder operator \<open>a % b\<close> of JavaScript on whole numbers: \<open>NaN\<close> (here \<open>None\<close>)
  when \<open>b\<close> is zero, otherwise the remainder of the truncating division, with the sign of
  \<open>a\<close>.
\<close>

definition js_rem :: "int \<Rightarrow> int \<Rightarrow> int option" where
  "js_rem a b = (if b = 0 then None else Some (sgn a * (\<bar>a\<bar> mod \<bar>b\<bar>)))"

definition setTimeout :: "delayed \<Rightarrow> int \<Rightarrow> PomodoroPlugin \<Rightarrow> PomodoroPlugin" where
  "setTimeout d due p = p\<lparr>timeouts := timeouts p @ [(due, d)]\<rparr>"

definition Notice :: "string \<Rightarrow> PomodoroPlugin \<Rightarrow> PomodoroPlugin" where
  "Notice msg p = p\<lparr>notices := notices p @ [msg]\<rparr>"

subsection \<open>Operations\<close>

text \<open>The field initialisers of the class and the timer that \<open>onload\<close> creates.\<close>

definition onload :: "PomodoroSettings \<Rightarrow> PomodoroPlugin" where
  "onload s =
     \<lparr>timer = PomoTimer_new s, currentMode = Work, completedPomodoros = 0,
      nextMode = ShortBreak, isSessionComplete = False, timeouts = [], notices = []\<rparr>"

definition getModeText :: "PomodoroPlugin \<Rightarrow> string" where
  "getModeText p =
     (if currentMode p = Work then ''Focus''
      else if currentMode p = ShortBreak then ''Short break''
      else ''Long break'')"

definition acknowledgeSessionComplete :: "PomodoroPlugin \<Rightarrow> PomodoroPlugin" where
  "acknowledgeSessionComplete p =
     (let p1 = p\<lparr>isSessionComplete := False\<rparr>
      in if \<not> isRunning (timer p1) then p1\<lparr>currentMode := nextMode p1\<rparr> else p1)"

text \<open>\<open>now\<close> is the instant of the call; the auto-start is due 1000 ms later.\<close>

definition advanceToNextMode :: "int \<Rightarrow> PomodoroPlugin \<Rightarrow> PomodoroPlugin" where
  "advanceToNextMode now p =
     (let p1 = (if currentMode p = Work then
                  let p' = p\<lparr>completedPomodoros := completedPomodoros p + 1\<rparr>
                  in if js_rem (completedPomodoros p') (longBreakInterval (settings (timer p')))
                        = Some 0
                     then p'\<lparr>nextMode := LongBreak\<rparr>
                     else p'\<lparr>nextMode := ShortBreak\<rparr>
                else p\<lparr>nextMode := Work\<rparr>)
      in if (currentMode p1 = Work \<and> autoStartBreaks (settings (timer p1))) \<or>
            (currentMode p1 \<noteq> Work \<and> autoStartPomodoros (settings (timer p1)))
         then setTimeout AutoStart (now + 1000) p1
         else p1)"

text \<open>
  The plugin's \<open>onTimerComplete\<close>, the third callback given to the timer. It takes no
  argument: the session that ended is read from \<open>currentMode\<close>.
\<close>

definition onTimerComplete :: "int \<Rightarrow> PomodoroPlugin \<Rightarrow> PomodoroPlugin" where
  "onTimerComplete now p =
     (let p1 = p\<lparr>isSessionComplete := True\<rparr>;
          sessionType = getModeText p1;
          p2 = Notice (sessionType @ '' session completed!'') p1;
          p3 = advanceToNextMode now p2
      in setTimeout GraceExpiry (now + 10000) p3)"

definition handlePauseResumeClick :: "int \<Rightarrow> PomodoroPlugin \<Rightarrow> PomodoroPlugin" where
  "handlePauseResumeClick now p =
     (if isSessionComplete p then acknowledgeSessionComplete p
      else if isRunning (timer p) \<or> getState (timer p) = Paused then
        (if getState (timer p) = Paused then p\<lparr>timer := resume now (timer p)\<rparr>
         else p\<lparr>timer := pause (timer p)\<rparr>)
      else p\<lparr>timer := start now (currentMode p) (timer p)\<rparr>)"

definition handleResetClick :: "PomodoroPlugin \<Rightarrow> PomodoroPlugin" where
  "handleResetClick p = (p\<lparr>timer := reset (timer p)\<rparr>)\<lparr>isSessionComplete := False\<rparr>"

text \<open>The \<open>switch\<close> has no case for \<open>Paused\<close> and \<open>Idle\<close>.\<close>

definition handleCycleModeClick :: "PomodoroPlugin \<Rightarrow> PomodoroPlugin" where
  "handleCycleModeClick p =
     (if getState (timer p) \<noteq> Idle \<or> isRunning (timer p) then
        Notice ''Reset the timer to switch modes'' p
      else if isSessionComplete p then acknowledgeSessionComplete p
      else
        let p1 = (case currentMode p of
                    Work \<Rightarrow> p\<lparr>currentMode := ShortBreak\<rparr>
                  | ShortBreak \<Rightarrow> p\<lparr>currentMode := LongBreak\<rparr>
                  | LongBreak \<Rightarrow> p\<lparr>currentMode := Work\<rparr>
                  | _ \<Rightarrow> p)
        in Notice (''Switched to '' @ getModeText p1 @ '' mode'') p1)"

subsection \<open>Events of the host\<close>

text \<open>
  The three callbacks the plugin gave to the timer: \<open>onTick\<close> is \<open>updateUI\<close> (output only),
  \<open>onStateChange\<close> is \<open>onTimerCompletion\<close> (an empty body), \<open>onTimerComplete\<close> is the
  plugin's method of that name. None of them calls back into the timer, and the timer invokes
  \<open>onTimerComplete\<close> and \<open>onStateChange\<close> as its last two steps, so handing the recorded
  invocations to the plugin once the timer's handler has run gives the same plugin state.
\<close>

fun deliver :: "int \<Rightarrow> PomodoroPlugin \<Rightarrow> callback \<times> glimpse \<Rightarrow> PomodoroPlugin" where
  "deliver now p (OnTick r t, g) = p"
| "deliver now p (OnStateChange s, g) = p"
| "deliver now p (OnTimerComplete, g) = onTimerComplete now p"

definition intervalFires :: "nat \<Rightarrow> int \<Rightarrow> PomodoroPlugin \<Rightarrow> PomodoroPlugin" where
  "intervalFires h now p =
     (let e = fire h now (timer p)
      in foldl (deliver now) (p\<lparr>timer := e\<rparr>) (drop (length (calls (timer p))) (calls e)))"

text \<open>The bodies of the two one-shot callbacks, and the window running one that is due.\<close>

fun runDelayed :: "delayed \<Rightarrow> int \<Rightarrow> PomodoroPlugin \<Rightarrow> PomodoroPlugin" where
  "runDelayed AutoStart now p =
     (if isSessionComplete p then
        let p1 = p\<lparr>currentMode := nextMode p\<rparr>
        in p1\<lparr>timer := start now (currentMode p1) (timer p1)\<rparr>
      else p)"
| "runDelayed GraceExpiry now p = acknowledgeSessionComplete p"

definition timeoutFires :: "delayed \<Rightarrow> int \<Rightarrow> PomodoroPlugin \<Rightarrow> PomodoroPlugin" where
  "timeoutFires d now p =
     (case find (\<lambda>(due, k). k = d \<and> due \<le> now) (timeouts p) of
        None \<Rightarrow> p
      | Some x \<Rightarrow> runDelayed d now (p\<lparr>timeouts := remove1 x (timeouts p)\<rparr>))"

subsection \<open>Runs of the plugin\<close>

text \<open>
  What the host can make happen, each with the reading of the clock at that moment: a click on
  the time display, a right click on it, a click on the mode name, the window running the
  callback of an interval, the window running a one-shot callback that is due.
\<close>

datatype event =
    TimeClick
  | ResetClick
  | ModeClick
  | IntervalRuns nat
  | TimeoutRuns delayed

fun handle :: "PomodoroPlugin \<Rightarrow> int \<times> event \<Rightarrow> PomodoroPlugin" where
  "handle p (now, TimeClick) = handlePauseResumeClick now p"
| "handle p (now, ResetClick) = handleResetClick p"
| "handle p (now, ModeClick) = handleCycleModeClick p"
| "handle p (now, IntervalRuns h) = intervalFires h now p"
| "handle p (now, TimeoutRuns d) = timeoutFires d now p"

definition play :: "(int \<times> event) list \<Rightarrow> PomodoroPlugin \<Rightarrow> PomodoroPlugin" where
  "play script p = foldl handle p script"

text \<open>
  A run with 1-minute Work sessions. The first session is started at 1000 ms and completes at
  61000 ms, which schedules the acknowledgement for 71000 ms. The user resets at 61500 ms
  (the one-shot stays scheduled), starts the next Work session at 63000 ms and pauses it at
  64000 ms. The acknowledgement runs at 71000 ms while the session is paused, and the session
  is resumed at 72000 ms; its deadline is then 132000 ms and its interval handle is 3. The
  auto-start that a completion may have scheduled for 62000 ms runs when it is due.
\<close>

definition stale_acknowledgement :: "(int \<times> event) list" where
  "stale_acknowledgement =
     [(1000, TimeClick), (61000, IntervalRuns 1), (61500, ResetClick),
      (62000, TimeoutRuns AutoStart), (63000, TimeClick), (64000, TimeClick),
      (71000, TimeoutRuns GraceExpiry), (72000, TimeClick)]"

section \<open>Invariant of the engine and the tolerance of the display\<close>

text \<open>
  While a session is ticking the engine holds a deadline and the one interval handle of the
  window; otherwise it holds neither and the window holds none. A paused engine remembers a
  session kind, and an idle one shows zero.
\<close>

definition engine_inv :: "runtime \<Rightarrow> bool" where
  "engine_inv e =
     ((if isRunning e
       then targetTime e \<noteq> None \<and>
            (case intervalId e of None \<Rightarrow> False | Some h \<Rightarrow> h \<noteq> 0 \<and> handles e = [h])
       else targetTime e = None \<and> intervalId e = None \<and> handles e = []) \<and>
      (state e = Paused \<longrightarrow> prePauseState e \<noteq> Idle \<and> prePauseState e \<noteq> Paused) \<and>
      (state e = Idle \<longrightarrow> remainingTime e = 0 \<and> totalTime e = 0))"

text \<open>Two displayed whole seconds agree within one-second rounding.\<close>

definition one_second_rounding :: "int \<Rightarrow> int \<Rightarrow> bool" where
  "one_second_rounding shown expected = (\<bar>shown - expected\<bar> \<le> 1)"

section \<open>Properties of the engine\<close>

lemma ceil_ms_ceiling: "ceil_ms d = \<lceil>real_of_int d / 1000\<rceil>"
proof -
  have "\<lceil>real_of_int d / 1000\<rceil> = - \<lfloor>real_of_int (- d) / real_of_int 1000\<rfloor>"
    by (simp add: ceiling_def)
  also have "\<dots> = - ((- d) div 1000)"
    by (simp only: floor_divide_of_int_eq)
  finally show ?thesis by (simp add: ceil_ms_def)
qed

lemma ceil_ms_bounds: "1000 * ceil_ms d - 1000 < d \<and> d \<le> 1000 * ceil_ms d"
  unfolding ceil_ms_def by linarith

lemma ceil_ms_nonpos: "(ceil_ms d \<le> 0) = (d \<le> 0)"
  unfolding ceil_ms_def by linarith

lemmas engine_defs = start_def stop_def pause_def resume_def reset_def onInterval_def fire_def
  emit_def look_def setInterval_def clearInterval_def updateSettings_def isRunning_def

subsection \<open>The invariant holds in every reachable state\<close>

lemma inv_new: "engine_inv (PomoTimer_new s)"
  by (simp add: engine_inv_def PomoTimer_new_def isRunning_def)

lemma inv_stop: "engine_inv e \<Longrightarrow> engine_inv (stop e)"
  by (auto simp: engine_inv_def engine_defs Let_def split: option.splits if_splits)

lemma inv_reset: "engine_inv e \<Longrightarrow> engine_inv (reset e)"
  by (auto simp: engine_inv_def engine_defs Let_def split: option.splits if_splits)

lemma inv_pause: "engine_inv e \<Longrightarrow> engine_inv (pause e)"
  by (auto simp: engine_inv_def engine_defs Let_def split: option.splits if_splits)

lemma inv_start: "engine_inv e \<Longrightarrow> engine_inv (start now s e)"
  by (cases s) (auto simp: engine_inv_def engine_defs Let_def split: option.splits if_splits)

lemma inv_resume: "engine_inv e \<Longrightarrow> engine_inv (resume now e)"
  by (simp add: resume_def inv_start)

lemma inv_fire: "engine_inv e \<Longrightarrow> engine_inv (fire h now e)"
  by (auto simp: engine_inv_def engine_defs Let_def split: option.splits if_splits)

lemma inv_updateSettings: "engine_inv e \<Longrightarrow> engine_inv (updateSettings s e)"
  by (auto simp: engine_inv_def updateSettings_def isRunning_def split: option.splits if_splits)

lemma inv_exec: "engine_inv e \<Longrightarrow> engine_inv (exec e (now, c))"
  by (cases c)
    (simp_all add: inv_start inv_fire inv_pause inv_resume inv_stop inv_reset inv_updateSettings)

lemma reachable_inv: "reachable e \<Longrightarrow> engine_inv e"
  by (induction rule: reachable.induct) (simp_all add: inv_new inv_exec)

lemma reachable_started: "reachable (start now s (PomoTimer_new c))"
  using reachable.step [OF reachable.fresh, of c now "Start s"] by simp

lemma running_has_handle:
  assumes "engine_inv e" and "state e \<noteq> Idle" and "state e \<noteq> Paused"
  obtains h t where "intervalId e = Some h" and "h \<noteq> 0" and "handles e = [h]"
    and "targetTime e = Some t"
  using assms by (auto simp: engine_inv_def isRunning_def split: option.splits)

subsection \<open>What each operation does to the fields\<close>

lemma start_kind:
  assumes "s \<noteq> Idle" and "s \<noteq> Paused"
  shows "state (start now s e) = s"
    and "prePauseState (start now s e) = prePauseState e"
    and "settings (start now s e) = settings e"
    and "targetTime (start now s e) = Some (now + remainingTime (start now s e) * 1000)"
    and "intervalId (start now s e) = Some (Suc (issued e))"
    and "Suc (issued e) \<in> set (handles (start now s e))"
    and "calls (start now s e) = calls e @
          [(OnTick (remainingTime (start now s e)) (totalTime (start now s e)),
            \<lparr>seenState = s, seenRemaining = remainingTime (start now s e),
             seenTotal = totalTime (start now s e), seenTicking = True\<rparr>)]"
  using assms by (simp_all add: engine_defs Let_def split: option.splits TimerState.splits)

lemma start_keeps:
  assumes "s \<noteq> Idle" and "s \<noteq> Paused" and "0 < remainingTime e"
  shows "remainingTime (start now s e) = remainingTime e"
    and "totalTime (start now s e) = totalTime e"
  using assms by (simp_all add: engine_defs Let_def split: option.splits)

lemma start_fresh:
  assumes "remainingTime e \<le> 0"
  shows "remainingTime (start now Work e) = workTime (settings e) * 60"
    and "totalTime (start now Work e) = workTime (settings e) * 60"
    and "remainingTime (start now ShortBreak e) = shortBreakTime (settings e) * 60"
    and "totalTime (start now ShortBreak e) = shortBreakTime (settings e) * 60"
    and "remainingTime (start now LongBreak e) = longBreakTime (settings e) * 60"
    and "totalTime (start now LongBreak e) = longBreakTime (settings e) * 60"
  using assms by (simp_all add: engine_defs Let_def split: option.splits)

lemma start_rejects: "start now Idle e = e" "start now Paused e = e"
  by (simp_all add: start_def)

lemma pause_running:
  assumes "intervalId e = Some h" and "h \<noteq> 0" and "state e \<noteq> Idle" and "state e \<noteq> Paused"
  shows "state (pause e) = Paused"
    and "prePauseState (pause e) = state e"
    and "remainingTime (pause e) = remainingTime e"
    and "totalTime (pause e) = totalTime e"
    and "targetTime (pause e) = None"
    and "intervalId (pause e) = None"
    and "handles (pause e) = removeAll h (handles e)"
    and "settings (pause e) = settings e"
    and "issued (pause e) = issued e"
  using assms by (simp_all add: engine_defs Let_def)

lemma tick_continues:
  assumes "targetTime e = Some t" and "t \<noteq> 0" and "h \<in> set (handles e)"
    and "0 < ceil_ms (t - now)"
  shows "fire h now e =
    emit (OnTick (ceil_ms (t - now)) (totalTime e)) (e\<lparr>remainingTime := ceil_ms (t - now)\<rparr>)"
  using assms by (simp add: engine_defs Let_def)

lemma tick_completes:
  assumes "handles e = [h]" and "h \<noteq> 0" and "intervalId e = Some h"
    and "targetTime e = Some t" and "t \<noteq> 0" and "ceil_ms (t - now) \<le> 0"
  shows "calls (fire h now e) = calls e @
      [(OnTick (ceil_ms (t - now)) (totalTime e),
          \<lparr>seenState = state e, seenRemaining = ceil_ms (t - now), seenTotal = totalTime e,
           seenTicking = True\<rparr>),
       (OnTick 0 0, \<lparr>seenState = Idle, seenRemaining = 0, seenTotal = 0, seenTicking = False\<rparr>),
       (OnTimerComplete,
          \<lparr>seenState = Idle, seenRemaining = 0, seenTotal = 0, seenTicking = False\<rparr>),
       (OnStateChange (state e),
          \<lparr>seenState = Idle, seenRemaining = 0, seenTotal = 0, seenTicking = False\<rparr>)]"
    and "state (fire h now e) = Idle"
    and "remainingTime (fire h now e) = 0"
    and "totalTime (fire h now e) = 0"
    and "targetTime (fire h now e) = None"
    and "intervalId (fire h now e) = None"
    and "handles (fire h now e) = []"
    and "settings (fire h now e) = settings e"
  using assms by (simp_all add: engine_defs Let_def)

subsection \<open>Starting a session\<close>

text \<open>
  C1. In a reachable engine that is Idle, \<open>remainingTime\<close> is 0, and \<open>start\<close> with Work,
  ShortBreak or LongBreak leaves the engine in that state with \<open>totalTime\<close> and
  \<open>remainingTime\<close> both equal to the configured minutes of that mode times 60;
  \<open>start\<close> with Idle or Paused changes nothing.
\<close>

theorem start_from_idle:
  assumes "reachable e" and "state e = Idle"
  shows "remainingTime e = 0 \<and>
    state (start now Work e) = Work \<and>
    remainingTime (start now Work e) = workTime (settings e) * 60 \<and>
    totalTime (start now Work e) = workTime (settings e) * 60 \<and>
    state (start now ShortBreak e) = ShortBreak \<and>
    remainingTime (start now ShortBreak e) = shortBreakTime (settings e) * 60 \<and>
    totalTime (start now ShortBreak e) = shortBreakTime (settings e) * 60 \<and>
    state (start now LongBreak e) = LongBreak \<and>
    remainingTime (start now LongBreak e) = longBreakTime (settings e) * 60 \<and>
    totalTime (start now LongBreak e) = longBreakTime (settings e) * 60 \<and>
    start now Idle e = e \<and> start now Paused e = e"
proof -
  from assms have z: "remainingTime e = 0"
    using reachable_inv [of e] by (simp add: engine_inv_def)
  then have "remainingTime e \<le> 0" by simp
  with z show ?thesis
    by (simp add: start_fresh start_kind(1) start_rejects)
qed

text \<open>C1 at the freshly constructed engine with the default settings: 15 minutes are 900 s.\<close>

theorem start_from_idle_witness:
  "reachable (PomoTimer_new DEFAULT_SETTINGS) \<and> state (PomoTimer_new DEFAULT_SETTINGS) = Idle \<and>
   state (start 1000 LongBreak (PomoTimer_new DEFAULT_SETTINGS)) = LongBreak \<and>
   remainingTime (start 1000 LongBreak (PomoTimer_new DEFAULT_SETTINGS)) = 900 \<and>
   totalTime (start 1000 LongBreak (PomoTimer_new DEFAULT_SETTINGS)) = 900"
proof -
  have r: "reachable (PomoTimer_new DEFAULT_SETTINGS)" by (rule reachable.fresh)
  have i: "state (PomoTimer_new DEFAULT_SETTINGS) = Idle" by (simp add: PomoTimer_new_def)
  show ?thesis
    using r i start_from_idle [OF r i, of 1000]
    by (simp add: PomoTimer_new_def DEFAULT_SETTINGS_def)
qed

subsection \<open>Pausing and resuming\<close>

text \<open>
  C2 fails on the code. \<open>pause\<close> does not read the clock: it keeps the \<open>remainingTime\<close>
  that the last interval callback stored, where the interval callback itself recomputes the
  seconds from \<open>targetTime\<close> and the clock. A 25-minute Work session starts at 1000 ms; the
  window runs no interval callback during the next 5 s (a throttled or busy window); the
  session is paused at 6000 ms, after 5 s of running, and resumed at 200000 ms. The tick on
  resume reports 1500 s, which is not 1495 s within one-second rounding: the 5 s that ran are
  counted again. Had the interval callback run at 6000 ms, just before the pause, the tick
  on resume would report 1495 s.
\<close>

theorem pause_keeps_stale_time:
  "reported (run [(1000, Start Work), (6000, Pause), (200000, Resume)]
      (PomoTimer_new DEFAULT_SETTINGS)) = Some (OnTick 1500 1500) \<and>
   \<not> one_second_rounding 1500 (1500 - 5) \<and>
   reported (run [(1000, Start Work), (6000, IntervalFires 1), (6000, Pause), (200000, Resume)]
      (PomoTimer_new DEFAULT_SETTINGS)) = Some (OnTick 1495 1500)"
  by (simp add: run_def engine_defs PomoTimer_new_def DEFAULT_SETTINGS_def Let_def reported_def
      one_second_rounding_def ceil_ms_def)

text \<open>
  What does hold across a pause when the interval callback ran less than a second before it.
  A session is running towards the deadline \<open>t0 + 1000 * r\<close>, set when its countdown started
  from \<open>r\<close> seconds at \<open>t0\<close>. The last interval callback before the pause runs \<open>tau\<close> ms
  after \<open>t0\<close>, the pause comes \<open>p\<close> ms after \<open>t0\<close>, less than a second after that callback
  and before the deadline. Whenever the session is resumed (\<open>tr\<close>), the tick emitted on
  resume reports the seconds stored by that callback: a positive value that is \<open>r - \<Delta>\<close> or
  \<open>r - \<Delta> + 1\<close> for the \<open>\<Delta> = p div 1000\<close> whole seconds run, with the same state and
  \<open>totalTime\<close>, and the new deadline is \<open>tr\<close> plus that value. The interval callback that
  runs \<open>d\<close> ms after the resume, before the new deadline, reports that value less the time
  run since the resume, rounded up to a whole second. The time spent paused does not enter.
\<close>

lemma pause_resume_accounting:
  assumes "reachable e" and "state e \<noteq> Idle" and "state e \<noteq> Paused"
    and "intervalId e = Some h"
    and "targetTime e = Some (t0 + 1000 * r)" and "t0 + 1000 * r \<noteq> 0"
    and "0 \<le> tau" and "tau \<le> p" and "p < tau + 1000" and "p < 1000 * r"
    and "0 \<le> tr" and "0 \<le> d" and "d < 1000 * ceil_ms (1000 * r - tau)"
  shows "remainingTime (resume tr (pause (fire h (t0 + tau) e))) = ceil_ms (1000 * r - tau) \<and>
    0 < remainingTime (resume tr (pause (fire h (t0 + tau) e))) \<and>
    r - p div 1000 \<le> remainingTime (resume tr (pause (fire h (t0 + tau) e))) \<and>
    remainingTime (resume tr (pause (fire h (t0 + tau) e))) \<le> r - p div 1000 + 1 \<and>
    one_second_rounding (remainingTime (resume tr (pause (fire h (t0 + tau) e))))
      (r - p div 1000) \<and>
    reported (resume tr (pause (fire h (t0 + tau) e))) =
      Some (OnTick (ceil_ms (1000 * r - tau)) (totalTime e)) \<and>
    state (resume tr (pause (fire h (t0 + tau) e))) = state e \<and>
    totalTime (resume tr (pause (fire h (t0 + tau) e))) = totalTime e \<and>
    targetTime (resume tr (pause (fire h (t0 + tau) e))) =
      Some (tr + ceil_ms (1000 * r - tau) * 1000) \<and>
    intervalId (resume tr (pause (fire h (t0 + tau) e))) = Some (Suc (issued e)) \<and>
    reported (fire (Suc (issued e)) (tr + d) (resume tr (pause (fire h (t0 + tau) e)))) =
      Some (OnTick (ceil_ms (1000 * ceil_ms (1000 * r - tau) - d)) (totalTime e)) \<and>
    0 < ceil_ms (1000 * ceil_ms (1000 * r - tau) - d) \<and>
    ceil_ms (1000 * ceil_ms (1000 * r - tau) - d) \<le> ceil_ms (1000 * r - tau) \<and>
    (0 < remainingTime e \<longrightarrow>
       remainingTime (resume tr (pause e)) = remainingTime e \<and>
       totalTime (resume tr (pause e)) = totalTime e \<and>
       state (resume tr (pause e)) = state e \<and>
       targetTime (resume tr (pause e)) = Some (tr + remainingTime e * 1000))"
proof -
  let ?s = "ceil_ms (1000 * r - tau)"
  let ?e1 = "fire h (t0 + tau) e"
  from assms(1) have inv: "engine_inv e" by (rule reachable_inv)
  from inv assms(2-4) have hs: "h \<noteq> 0" "handles e = [h]"
    by (auto elim: running_has_handle)
  have b: "1000 * ?s - 1000 < 1000 * r - tau" "1000 * r - tau \<le> 1000 * ?s"
    using ceil_ms_bounds [of "1000 * r - tau"] by simp_all
  from b assms(7-10) have pos: "0 < ?s" by linarith
  have d: "1000 * (p div 1000) \<le> p" "p < 1000 * (p div 1000) + 1000"
    by linarith+
  from b d assms(7-10) have lo: "r - p div 1000 \<le> ?s" and hi: "?s \<le> r - p div 1000 + 1"
    by linarith+
  from lo hi have near: "one_second_rounding ?s (r - p div 1000)"
    by (simp add: one_second_rounding_def)
  have "t0 + 1000 * r - (t0 + tau) = 1000 * r - tau" by simp
  with pos hs assms(5,6)
  have e1: "?e1 = emit (OnTick ?s (totalTime e)) (e\<lparr>remainingTime := ?s\<rparr>)"
    using tick_continues [of e "t0 + 1000 * r" h "t0 + tau"] by simp
  have f1: "intervalId ?e1 = Some h" "state ?e1 = state e" "remainingTime ?e1 = ?s"
    "totalTime ?e1 = totalTime e" "issued ?e1 = issued e"
    using assms(4) by (simp_all add: e1 emit_def)
  let ?e2 = "pause ?e1"
  from f1 hs(1) assms(2,3) have f2: "state ?e2 = Paused" "prePauseState ?e2 = state e"
    "remainingTime ?e2 = ?s" "totalTime ?e2 = totalTime e" "issued ?e2 = issued e"
    by (simp_all add: pause_running)
  let ?e3 = "resume tr ?e2"
  from f2 have e3: "?e3 = start tr (state e) ?e2" by (simp add: resume_def)
  from f2 pos assms(2,3) have f3: "remainingTime ?e3 = ?s" "totalTime ?e3 = totalTime e"
    "state ?e3 = state e" "targetTime ?e3 = Some (tr + ?s * 1000)"
    by (simp_all add: e3 start_keeps start_kind)
  have "calls ?e3 \<noteq> []" "fst (last (calls ?e3)) = OnTick ?s (totalTime e)"
    using assms(2,3) f3(1,2) by (simp_all add: e3 start_kind(7))
  then have rep: "reported ?e3 = Some (OnTick ?s (totalTime e))" by (simp add: reported_def)
  let ?h = "Suc (issued e)"
  let ?v = "ceil_ms (1000 * ?s - d)"
  from f2(5) assms(2,3) have nh: "intervalId ?e3 = Some ?h" "?h \<in> set (handles ?e3)"
    using start_kind(5) [of "state e" tr ?e2] start_kind(6) [of "state e" ?e2 tr]
    by (simp_all add: e3)
  have bv: "1000 * ?v - 1000 < 1000 * ?s - d" "1000 * ?s - d \<le> 1000 * ?v"
    using ceil_ms_bounds [of "1000 * ?s - d"] by simp_all
  from bv assms(12,13) have vpos: "0 < ?v" and vle: "?v \<le> ?s" by linarith+
  from pos assms(11) have tnz: "tr + ?s * 1000 \<noteq> 0" by linarith
  have "tr + ?s * 1000 - (tr + d) = 1000 * ?s - d" by simp
  then have eqv: "ceil_ms (tr + ?s * 1000 - (tr + d)) = ?v" by (simp only:)
  from vpos have "0 < ceil_ms (tr + ?s * 1000 - (tr + d))" by (simp only: eqv)
  from tick_continues [OF f3(4) tnz nh(2) this]
  have e4: "fire ?h (tr + d) ?e3 =
      emit (OnTick ?v (totalTime ?e3)) (?e3\<lparr>remainingTime := ?v\<rparr>)"
    by (simp only: eqv)
  have rep2: "reported (fire ?h (tr + d) ?e3) = Some (OnTick ?v (totalTime e))"
    unfolding e4 by (simp add: reported_def emit_def f3(2))
  have direct: "0 < remainingTime e \<longrightarrow>
       remainingTime (resume tr (pause e)) = remainingTime e \<and>
       totalTime (resume tr (pause e)) = totalTime e \<and>
       state (resume tr (pause e)) = state e \<and>
       targetTime (resume tr (pause e)) = Some (tr + remainingTime e * 1000)"
    using assms(2-4) hs(1)
    by (simp add: resume_def pause_running start_keeps start_kind)
  from f3 pos lo hi near rep nh(1) rep2 vpos vle direct show ?thesis by simp
qed

text \<open>
  The same at a 25-minute Work session started at 1000 ms: the last callback runs 61.2 s in,
  the pause comes 61.9 s in, the session is resumed at 500000 ms and reports 1439 s.
\<close>

lemma pause_resume_accounting_example:
  "reachable (start 1000 Work (PomoTimer_new DEFAULT_SETTINGS)) \<and>
   intervalId (start 1000 Work (PomoTimer_new DEFAULT_SETTINGS)) = Some 1 \<and>
   targetTime (start 1000 Work (PomoTimer_new DEFAULT_SETTINGS)) = Some (1000 + 1000 * 1500) \<and>
   remainingTime (resume 500000 (pause (fire 1 (1000 + 61200)
      (start 1000 Work (PomoTimer_new DEFAULT_SETTINGS))))) = 1439 \<and>
   targetTime (resume 500000 (pause (fire 1 (1000 + 61200)
      (start 1000 Work (PomoTimer_new DEFAULT_SETTINGS))))) = Some 1939000 \<and>
   reported (fire 2 (500000 + 1000) (resume 500000 (pause (fire 1 (1000 + 61200)
      (start 1000 Work (PomoTimer_new DEFAULT_SETTINGS)))))) = Some (OnTick 1438 1500) \<and>
   0 < remainingTime (start 1000 Work (PomoTimer_new DEFAULT_SETTINGS)) \<and>
   remainingTime (resume 500000 (pause (start 1000 Work (PomoTimer_new DEFAULT_SETTINGS)))) = 1500"
proof -
  let ?e = "start 1000 Work (PomoTimer_new DEFAULT_SETTINGS)"
  have r: "reachable ?e" by (rule reachable_started)
  have s: "state ?e \<noteq> Idle" "state ?e \<noteq> Paused" by (simp_all add: start_kind)
  have i: "intervalId ?e = Some 1" by (simp add: start_kind PomoTimer_new_def)
  have t: "targetTime ?e = Some (1000 + 1000 * 1500)"
    by (simp add: start_kind start_fresh PomoTimer_new_def DEFAULT_SETTINGS_def)
  have c: "ceil_ms (1000 * 1500 - 61200) = 1439" by (simp add: ceil_ms_def)
  have m: "remainingTime ?e = 1500" "totalTime ?e = 1500"
    by (simp_all add: start_fresh PomoTimer_new_def DEFAULT_SETTINGS_def)
  have n: "issued ?e = 1"
    by (simp add: engine_defs PomoTimer_new_def Let_def)
  have c2: "ceil_ms (1000 * 1439 - 1000) = 1438" by (simp add: ceil_ms_def)
  show ?thesis
    using r i t c m n c2
      pause_resume_accounting [OF r s i t, of 61200 61900 500000 1000]
    by (simp add: numeral_2_eq_2)
qed

subsection \<open>Completion\<close>

text \<open>
  C3. In a reachable engine whose deadline \<open>t\<close> has been reached when the interval callback
  runs (\<open>t \<le> now\<close>),
  the session state is Work, ShortBreak or LongBreak, and the callback invokes, in this order:
  the tick with the computed seconds, the zero tick of \<open>stop\<close>, \<open>onTimerComplete\<close> once and
  \<open>onStateChange\<close> once with the state the session had before \<open>stop\<close>. When the two
  completion callbacks are invoked the engine already shows Idle with a \<open>remainingTime\<close> of 0
  and the window holds no interval. Afterwards no interval callback has any effect, so the
  completion is not notified a second time.
\<close>

theorem completion_notified_once:
  assumes "reachable e" and "targetTime e = Some t" and "t \<noteq> 0"
    and "intervalId e = Some h" and "t \<le> now"
  shows "(state e = Work \<or> state e = ShortBreak \<or> state e = LongBreak) \<and>
    calls (fire h now e) = calls e @
      [(OnTick (ceil_ms (t - now)) (totalTime e),
          \<lparr>seenState = state e, seenRemaining = ceil_ms (t - now), seenTotal = totalTime e,
           seenTicking = True\<rparr>),
       (OnTick 0 0, \<lparr>seenState = Idle, seenRemaining = 0, seenTotal = 0, seenTicking = False\<rparr>),
       (OnTimerComplete,
          \<lparr>seenState = Idle, seenRemaining = 0, seenTotal = 0, seenTicking = False\<rparr>),
       (OnStateChange (state e),
          \<lparr>seenState = Idle, seenRemaining = 0, seenTotal = 0, seenTicking = False\<rparr>)] \<and>
    state (fire h now e) = Idle \<and> remainingTime (fire h now e) = 0 \<and>
    intervalId (fire h now e) = None \<and> handles (fire h now e) = [] \<and>
    fire h' now' (fire h now e) = fire h now e"
proof -
  from assms(1) have inv: "engine_inv e" by (rule reachable_inv)
  with assms(2,4) have run: "state e \<noteq> Idle" "state e \<noteq> Paused"
    and hs: "h \<noteq> 0" "handles e = [h]"
    by (auto simp: engine_inv_def isRunning_def split: if_splits)
  from run have kinds: "state e = Work \<or> state e = ShortBreak \<or> state e = LongBreak"
    by (cases "state e") simp_all
  from assms(5) have late: "ceil_ms (t - now) \<le> 0" by (simp add: ceil_ms_nonpos)
  note fin = tick_completes [OF hs(2) hs(1) assms(4) assms(2) assms(3) late]
  from fin(7) have "fire h' now' (fire h now e) = fire h now e"
    by (simp add: fire_def [of h' now'])
  with kinds fin show ?thesis by simp
qed

text \<open>
  C3 at a 5-minute ShortBreak started at 1000 ms whose callback runs exactly at the deadline.
\<close>

theorem completion_notified_once_witness:
  "reachable (start 1000 ShortBreak (PomoTimer_new DEFAULT_SETTINGS)) \<and>
   targetTime (start 1000 ShortBreak (PomoTimer_new DEFAULT_SETTINGS)) = Some 301000 \<and>
   intervalId (start 1000 ShortBreak (PomoTimer_new DEFAULT_SETTINGS)) = Some 1 \<and>
   (301000::int) \<le> 301000 \<and>
   map fst (calls (fire 1 301000 (start 1000 ShortBreak (PomoTimer_new DEFAULT_SETTINGS)))) =
     [OnTick 300 300, OnTick 0 300, OnTick 0 0, OnTimerComplete, OnStateChange ShortBreak] \<and>
   state (fire 1 301000 (start 1000 ShortBreak (PomoTimer_new DEFAULT_SETTINGS))) = Idle"
proof -
  let ?e = "start 1000 ShortBreak (PomoTimer_new DEFAULT_SETTINGS)"
  have r: "reachable ?e" by (rule reachable_started)
  have i: "intervalId ?e = Some 1" by (simp add: start_kind PomoTimer_new_def)
  have t: "targetTime ?e = Some 301000"
    by (simp add: start_kind start_fresh PomoTimer_new_def DEFAULT_SETTINGS_def)
  have z: "(301000::int) \<noteq> 0" by simp
  have c: "(301000::int) \<le> 301000" by simp
  have k: "calls ?e = [(OnTick 300 300,
      \<lparr>seenState = ShortBreak, seenRemaining = 300, seenTotal = 300, seenTicking = True\<rparr>)]"
    "totalTime ?e = 300" "state ?e = ShortBreak"
    by (simp_all add: start_kind start_fresh PomoTimer_new_def DEFAULT_SETTINGS_def)
  have v: "ceil_ms 0 = 0" by (simp add: ceil_ms_def)
  show ?thesis
    using r i t c completion_notified_once [OF r t z i c]
    by (simp add: k v)
qed

text \<open>
  C4 fails on the code. The interval callback passes the computed seconds to \<open>onTick\<close>
  before it clamps them (the clamp, under the comment that negative numbers are not to be
  shown, comes one statement later). A 1-minute Work session starts at 1000 ms, so its
  deadline is 61000 ms; the window runs the callback at 62500 ms, 1.5 s late, and \<open>onTick\<close>
  receives \<open>-1\<close>.
\<close>

theorem late_tick_reports_negative:
  "map fst (calls (run [(1000, Start Work), (62500, IntervalFires 1)]
      (PomoTimer_new (DEFAULT_SETTINGS\<lparr>workTime := 1\<rparr>)))) =
   [OnTick 60 60, OnTick (- 1) 60, OnTick 0 0, OnTimerComplete, OnStateChange Work]"
  by (simp add: run_def engine_defs PomoTimer_new_def DEFAULT_SETTINGS_def Let_def ceil_ms_def)

subsection \<open>Deadline, state and interval handle\<close>

text \<open>
  C5. In every reachable engine, \<open>targetTime\<close> is set exactly when the state is neither Idle
  nor Paused and \<open>intervalId\<close> is a handle that the window holds; \<open>targetTime\<close> and
  \<open>intervalId\<close> are set together. \<open>start\<close> with a session kind sets both, with that handle
  the only one the window holds; \<open>pause\<close> of a ticking session and \<open>stop\<close> clear both and
  leave the window without a handle.
\<close>

theorem target_iff_running_and_ticking:
  assumes "reachable e"
  shows "((targetTime e \<noteq> None) =
           (state e \<noteq> Idle \<and> state e \<noteq> Paused \<and>
            (\<exists>h. intervalId e = Some h \<and> h \<in> set (handles e)))) \<and>
    ((targetTime e \<noteq> None) = (intervalId e \<noteq> None)) \<and>
    (s \<noteq> Idle \<and> s \<noteq> Paused \<longrightarrow>
       targetTime (start now s e) \<noteq> None \<and>
       (\<exists>h. intervalId (start now s e) = Some h \<and> handles (start now s e) = [h])) \<and>
    targetTime (pause e) = None \<and> intervalId (pause e) = None \<and> handles (pause e) = [] \<and>
    targetTime (stop e) = None \<and> intervalId (stop e) = None \<and> handles (stop e) = []"
proof -
  from assms have inv: "engine_inv e" by (rule reachable_inv)
  have a: "(targetTime e \<noteq> None) =
           (state e \<noteq> Idle \<and> state e \<noteq> Paused \<and>
            (\<exists>h. intervalId e = Some h \<and> h \<in> set (handles e)))"
    using inv by (auto simp: engine_inv_def isRunning_def split: if_splits option.splits)
  have b: "(targetTime e \<noteq> None) = (intervalId e \<noteq> None)"
    using inv by (auto simp: engine_inv_def isRunning_def split: if_splits option.splits)
  have c: "s \<noteq> Idle \<and> s \<noteq> Paused \<longrightarrow>
       targetTime (start now s e) \<noteq> None \<and>
       (\<exists>h. intervalId (start now s e) = Some h \<and> handles (start now s e) = [h])"
    using inv by (cases s)
      (auto simp: engine_inv_def engine_defs Let_def split: if_splits option.splits)
  have d: "targetTime (pause e) = None \<and> intervalId (pause e) = None \<and> handles (pause e) = []"
    using inv by (auto simp: engine_inv_def engine_defs Let_def split: if_splits option.splits)
  have f: "targetTime (stop e) = None \<and> intervalId (stop e) = None \<and> handles (stop e) = []"
    using inv by (auto simp: engine_inv_def engine_defs Let_def split: if_splits option.splits)
  from a b c d f show ?thesis by blast
qed

text \<open>
  C5 at a running Work session: deadline and handle are both there, and a restart as a
  LongBreak replaces the handle.
\<close>

theorem target_iff_running_and_ticking_witness:
  "reachable (start 1000 Work (PomoTimer_new DEFAULT_SETTINGS)) \<and>
   targetTime (start 1000 Work (PomoTimer_new DEFAULT_SETTINGS)) \<noteq> None \<and>
   intervalId (start 1000 Work (PomoTimer_new DEFAULT_SETTINGS)) \<noteq> None \<and>
   LongBreak \<noteq> Idle \<and> LongBreak \<noteq> Paused \<and>
   targetTime (start 2000 LongBreak (start 1000 Work (PomoTimer_new DEFAULT_SETTINGS))) \<noteq> None \<and>
   targetTime (pause (start 1000 Work (PomoTimer_new DEFAULT_SETTINGS))) = None \<and>
   handles (stop (start 1000 Work (PomoTimer_new DEFAULT_SETTINGS))) = []"
proof -
  let ?e = "start 1000 Work (PomoTimer_new DEFAULT_SETTINGS)"
  have r: "reachable ?e" by (rule reachable_started)
  have i: "intervalId ?e = Some 1" by (simp add: start_kind PomoTimer_new_def)
  have k: "state ?e = Work" by (simp add: start_kind)
  have m: "Suc 0 \<in> set (handles ?e)"
    using start_kind(6) [of Work "PomoTimer_new DEFAULT_SETTINGS" 1000]
    by (simp add: PomoTimer_new_def)
  show ?thesis
    using r i k m target_iff_running_and_ticking [OF r, of LongBreak 2000]
    by simp
qed

subsection \<open>Reset\<close>

text \<open>
  C9. In every reachable engine, \<open>reset\<close> is \<open>stop\<close> followed by one more invocation of
  \<open>onTick\<close> with (0, 0): the fields of the engine are those after \<open>stop\<close>. After \<open>reset\<close>
  the state is Idle, \<open>remainingTime\<close> and \<open>totalTime\<close> are 0, \<open>targetTime\<close> and
  \<open>intervalId\<close> are cleared and the window holds no interval; a second \<open>reset\<close> leaves
  every field of the engine and the window's handles as the first one left them.
\<close>

theorem reset_idempotent:
  assumes "reachable e"
  shows "reset e = emit (OnTick 0 0) (stop e) \<and>
    calls (reset e) = calls (stop e) @
      [(OnTick 0 0, \<lparr>seenState = Idle, seenRemaining = 0, seenTotal = 0, seenTicking = False\<rparr>)] \<and>
    PomoTimer.truncate (reset e) = PomoTimer.truncate (stop e) \<and>
    state (reset e) = Idle \<and> remainingTime (reset e) = 0 \<and> totalTime (reset e) = 0 \<and>
    targetTime (reset e) = None \<and> intervalId (reset e) = None \<and> handles (reset e) = [] \<and>
    PomoTimer.truncate (reset (reset e)) = PomoTimer.truncate (reset e) \<and>
    handles (reset (reset e)) = handles (reset e) \<and>
    state (reset (reset e)) = Idle \<and> remainingTime (reset (reset e)) = 0 \<and>
    totalTime (reset (reset e)) = 0 \<and> targetTime (reset (reset e)) = None \<and>
    intervalId (reset (reset e)) = None"
proof -
  from assms have inv: "engine_inv e" by (rule reachable_inv)
  show ?thesis
    using inv
    by (auto simp: engine_inv_def engine_defs Let_def PomoTimer.truncate_def runtime.defs
        PomoTimer.defs split: if_splits option.splits)
qed

text \<open>C9 at a running Work session.\<close>

theorem reset_idempotent_witness:
  "reachable (start 1000 Work (PomoTimer_new DEFAULT_SETTINGS)) \<and>
   state (reset (start 1000 Work (PomoTimer_new DEFAULT_SETTINGS))) = Idle \<and>
   handles (reset (start 1000 Work (PomoTimer_new DEFAULT_SETTINGS))) = [] \<and>
   PomoTimer.truncate (reset (reset (start 1000 Work (PomoTimer_new DEFAULT_SETTINGS)))) =
   PomoTimer.truncate (reset (start 1000 Work (PomoTimer_new DEFAULT_SETTINGS)))"
proof -
  have r: "reachable (start 1000 Work (PomoTimer_new DEFAULT_SETTINGS))"
    by (rule reachable_started)
  show ?thesis
    using r reset_idempotent [OF r] by blast
qed

subsection \<open>The session kind remembered across a pause\<close>

text \<open>
  C10. In every reachable engine: if the state is Paused then \<open>prePauseState\<close> is Work,
  ShortBreak or LongBreak, and \<open>resume\<close> is \<open>start\<close> with that session kind and ends in it;
  if a session is ticking then \<open>pause\<close> records its state in \<open>prePauseState\<close> and a
  following \<open>resume\<close> returns to that state.
\<close>

theorem paused_remembers_session:
  assumes "reachable e"
  shows "(state e = Paused \<longrightarrow>
      (prePauseState e = Work \<or> prePauseState e = ShortBreak \<or> prePauseState e = LongBreak) \<and>
      resume now e = start now (prePauseState e) e \<and>
      state (resume now e) = prePauseState e) \<and>
    (state e \<noteq> Idle \<and> state e \<noteq> Paused \<longrightarrow>
      state (pause e) = Paused \<and> prePauseState (pause e) = state e \<and>
      state (resume now (pause e)) = state e)"
proof -
  from assms have inv: "engine_inv e" by (rule reachable_inv)
  have a: "state e = Paused \<longrightarrow>
      (prePauseState e = Work \<or> prePauseState e = ShortBreak \<or> prePauseState e = LongBreak) \<and>
      resume now e = start now (prePauseState e) e \<and>
      state (resume now e) = prePauseState e"
  proof
    assume p: "state e = Paused"
    with inv have k: "prePauseState e \<noteq> Idle" "prePauseState e \<noteq> Paused"
      by (simp_all add: engine_inv_def)
    then have "prePauseState e = Work \<or> prePauseState e = ShortBreak \<or> prePauseState e = LongBreak"
      by (cases "prePauseState e") simp_all
    with p k show "(prePauseState e = Work \<or> prePauseState e = ShortBreak \<or>
        prePauseState e = LongBreak) \<and>
      resume now e = start now (prePauseState e) e \<and>
      state (resume now e) = prePauseState e"
      by (simp add: resume_def start_kind(1))
  qed
  have b: "state e \<noteq> Idle \<and> state e \<noteq> Paused \<longrightarrow>
      state (pause e) = Paused \<and> prePauseState (pause e) = state e \<and>
      state (resume now (pause e)) = state e"
  proof
    assume run: "state e \<noteq> Idle \<and> state e \<noteq> Paused"
    with inv obtain h where h: "intervalId e = Some h" "h \<noteq> 0"
      by (auto elim: running_has_handle)
    from h run have p: "state (pause e) = Paused" "prePauseState (pause e) = state e"
      by (simp_all add: pause_running)
    with run have "state (resume now (pause e)) = state e"
      by (simp add: resume_def start_kind(1))
    with p show "state (pause e) = Paused \<and> prePauseState (pause e) = state e \<and>
      state (resume now (pause e)) = state e" by simp
  qed
  from a b show ?thesis by blast
qed

text \<open>C10 at a LongBreak that is ticking, and at the same session once paused.\<close>

theorem paused_remembers_session_witness:
  "reachable (start 1000 LongBreak (PomoTimer_new DEFAULT_SETTINGS)) \<and>
   state (start 1000 LongBreak (PomoTimer_new DEFAULT_SETTINGS)) = LongBreak \<and>
   state (resume 9000 (pause (start 1000 LongBreak (PomoTimer_new DEFAULT_SETTINGS)))) =
     LongBreak \<and>
   reachable (pause (start 1000 LongBreak (PomoTimer_new DEFAULT_SETTINGS))) \<and>
   state (pause (start 1000 LongBreak (PomoTimer_new DEFAULT_SETTINGS))) = Paused \<and>
   prePauseState (pause (start 1000 LongBreak (PomoTimer_new DEFAULT_SETTINGS))) = LongBreak"
proof -
  let ?e = "start 1000 LongBreak (PomoTimer_new DEFAULT_SETTINGS)"
  have r: "reachable ?e" by (rule reachable_started)
  have s: "state ?e = LongBreak" by (simp add: start_kind)
  have r': "reachable (pause ?e)"
    using reachable.step [OF r, of 5000 Pause] by simp
  show ?thesis
    using r s r' paused_remembers_session [OF r, of 9000]
      paused_remembers_session [OF r', of 9000]
    by simp
qed

section \<open>Properties of the sequencer\<close>

lemmas plugin_defs = acknowledgeSessionComplete_def advanceToNextMode_def onTimerComplete_def
  handleCycleModeClick_def setTimeout_def Notice_def getModeText_def getState_def

lemmas run_defs = play_def stale_acknowledgement_def handlePauseResumeClick_def
  handleResetClick_def intervalFires_def timeoutFires_def onload_def PomoTimer_new_def
  DEFAULT_SETTINGS_def plugin_defs engine_defs Let_def ceil_ms_def js_rem_def reported_def

lemma js_rem_zero: "b \<noteq> 0 \<Longrightarrow> (js_rem a b = Some 0) = (a mod b = 0)"
proof -
  assume b: "b \<noteq> 0"
  have "(sgn a * (\<bar>a\<bar> mod \<bar>b\<bar>) = 0) = (\<bar>a\<bar> mod \<bar>b\<bar> = 0)"
    by (cases "a = 0") (simp_all add: sgn_if)
  also have "\<dots> = (\<bar>b\<bar> dvd \<bar>a\<bar>)" by (simp add: dvd_eq_mod_eq_0)
  also have "\<dots> = (b dvd a)" by simp
  also have "\<dots> = (a mod b = 0)" by (simp add: dvd_eq_mod_eq_0)
  finally show ?thesis using b by (simp add: js_rem_def)
qed

subsection \<open>Choosing the next mode\<close>

text \<open>
  What \<open>advanceToNextMode\<close> computes from \<open>currentMode\<close>, for an interval before a long
  break that is not zero. If \<open>currentMode\<close> is Work, \<open>completedPomodoros\<close> grows by exactly
  one and \<open>nextMode\<close> is LongBreak when the new count modulo \<open>longBreakInterval\<close> is 0 and
  ShortBreak otherwise; if it is ShortBreak or LongBreak, the count is unchanged and
  \<open>nextMode\<close> is Work. \<open>onTimerComplete\<close> yields the same count and next mode.
\<close>

lemma advance_from_currentMode:
  assumes "longBreakInterval (settings (timer p)) \<noteq> 0"
  shows "(currentMode p = Work \<longrightarrow>
      completedPomodoros (advanceToNextMode now p) = completedPomodoros p + 1 \<and>
      nextMode (advanceToNextMode now p) =
        (if (completedPomodoros p + 1) mod longBreakInterval (settings (timer p)) = 0
         then LongBreak else ShortBreak)) \<and>
    (currentMode p = ShortBreak \<or> currentMode p = LongBreak \<longrightarrow>
      completedPomodoros (advanceToNextMode now p) = completedPomodoros p \<and>
      nextMode (advanceToNextMode now p) = Work) \<and>
    (currentMode p = Work \<and> longBreakInterval (settings (timer p)) = 4 \<longrightarrow>
      (nextMode (advanceToNextMode now p) = LongBreak) = (4 dvd completedPomodoros p + 1) \<and>
      (nextMode (advanceToNextMode now p) = ShortBreak) = (\<not> 4 dvd completedPomodoros p + 1)) \<and>
    completedPomodoros (onTimerComplete now p) = completedPomodoros (advanceToNextMode now p) \<and>
    nextMode (onTimerComplete now p) = nextMode (advanceToNextMode now p)"
proof -
  let ?n = "completedPomodoros p + 1"
  let ?b = "longBreakInterval (settings (timer p))"
  from assms have z: "(js_rem ?n ?b = Some 0) = (?n mod ?b = 0)" by (rule js_rem_zero)
  have a: "currentMode p = Work \<longrightarrow>
      completedPomodoros (advanceToNextMode now p) = ?n \<and>
      nextMode (advanceToNextMode now p) = (if ?n mod ?b = 0 then LongBreak else ShortBreak)"
    using z by (simp add: plugin_defs Let_def)
  have b: "currentMode p = ShortBreak \<or> currentMode p = LongBreak \<longrightarrow>
      completedPomodoros (advanceToNextMode now p) = completedPomodoros p \<and>
      nextMode (advanceToNextMode now p) = Work"
    by (auto simp: plugin_defs Let_def)
  have c: "currentMode p = Work \<and> ?b = 4 \<longrightarrow>
      (nextMode (advanceToNextMode now p) = LongBreak) = (4 dvd ?n) \<and>
      (nextMode (advanceToNextMode now p) = ShortBreak) = (\<not> 4 dvd ?n)"
    using a by (auto simp: dvd_eq_mod_eq_0)
  have d: "completedPomodoros (onTimerComplete now p) = completedPomodoros (advanceToNextMode now p)"
    "nextMode (onTimerComplete now p) = nextMode (advanceToNextMode now p)"
    by (simp_all add: plugin_defs Let_def)
  from a b c d show ?thesis by blast
qed

text \<open>
  C6 fails on the code. The plugin does not take the session that ended from the engine (the
  state passed to \<open>onStateChange\<close> is ignored) but from \<open>currentMode\<close>, and the
  acknowledgement scheduled 10000 ms after a completion is never cancelled and overwrites
  \<open>currentMode\<close> with \<open>nextMode\<close> whenever the engine is not ticking, also when it is paused.
  In the run \<open>stale_acknowledgement\<close> the second Work session is ticking with one Work
  session counted; when it completes at 132000 ms the engine reports a completed Work
  session, but \<open>completedPomodoros\<close> stays 1 and \<open>nextMode\<close> is Work, not a break.
\<close>

theorem work_completion_not_counted:
  "state (timer (play stale_acknowledgement
     (onload (DEFAULT_SETTINGS\<lparr>workTime := 1\<rparr>)))) = Work \<and>
   completedPomodoros (play stale_acknowledgement
     (onload (DEFAULT_SETTINGS\<lparr>workTime := 1\<rparr>))) = 1 \<and>
   reported (timer (play (stale_acknowledgement @ [(132000, IntervalRuns 3)])
     (onload (DEFAULT_SETTINGS\<lparr>workTime := 1\<rparr>)))) = Some (OnStateChange Work) \<and>
   completedPomodoros (play (stale_acknowledgement @ [(132000, IntervalRuns 3)])
     (onload (DEFAULT_SETTINGS\<lparr>workTime := 1\<rparr>))) = 1 \<and>
   nextMode (play (stale_acknowledgement @ [(132000, IntervalRuns 3)])
     (onload (DEFAULT_SETTINGS\<lparr>workTime := 1\<rparr>))) = Work"
  by (simp add: run_defs numeral_3_eq_3)

subsection \<open>Switching the mode by hand\<close>

text \<open>
  C7. When the engine is not Idle (a session is ticking or paused), the request only shows
  the notice \<open>Reset the timer to switch modes\<close>, and \<open>currentMode\<close> is unchanged. When the
  engine is Idle and a completion is pending, the request is the acknowledgement of the
  completion: the flag is cleared and \<open>currentMode\<close> becomes \<open>nextMode\<close>, with no notice.
  When the engine is Idle and no completion is pending, \<open>currentMode\<close> steps from Work to
  ShortBreak, from ShortBreak to LongBreak and from LongBreak to Work, and the engine is not
  touched.
\<close>

theorem mode_switch_only_when_idle:
  "(state (timer p) \<noteq> Idle \<longrightarrow>
      handleCycleModeClick p = p\<lparr>notices := notices p @ [''Reset the timer to switch modes'']\<rparr> \<and>
      currentMode (handleCycleModeClick p) = currentMode p) \<and>
   (state (timer p) = Idle \<and> isSessionComplete p \<longrightarrow>
      handleCycleModeClick p = acknowledgeSessionComplete p \<and>
      \<not> isSessionComplete (handleCycleModeClick p) \<and>
      currentMode (handleCycleModeClick p) = nextMode p \<and>
      notices (handleCycleModeClick p) = notices p) \<and>
   (state (timer p) = Idle \<and> \<not> isSessionComplete p \<longrightarrow>
      (currentMode p = Work \<longrightarrow> currentMode (handleCycleModeClick p) = ShortBreak) \<and>
      (currentMode p = ShortBreak \<longrightarrow> currentMode (handleCycleModeClick p) = LongBreak) \<and>
      (currentMode p = LongBreak \<longrightarrow> currentMode (handleCycleModeClick p) = Work) \<and>
      timer (handleCycleModeClick p) = timer p \<and>
      \<not> isSessionComplete (handleCycleModeClick p))"
  by (cases "currentMode p") (simp_all add: plugin_defs isRunning_def Let_def)

subsection \<open>Automatic start after a Work session\<close>

lemma intervalFires_completes:
  assumes "handles (timer p) = [h]" and "h \<noteq> 0" and "intervalId (timer p) = Some h"
    and "targetTime (timer p) = Some t" and "t \<noteq> 0" and "ceil_ms (t - now) \<le> 0"
  shows "intervalFires h now p = onTimerComplete now (p\<lparr>timer := fire h now (timer p)\<rparr>)"
  by (simp add: intervalFires_def Let_def tick_completes(1) [OF assms])

lemma onTimerComplete_fields:
  "timer (onTimerComplete now p) = timer p"
  "currentMode (onTimerComplete now p) = currentMode p"
  "isSessionComplete (onTimerComplete now p)"
  "timeouts (onTimerComplete now p) = timeouts p @
     (if (currentMode p = Work \<and> autoStartBreaks (settings (timer p))) \<or>
         (currentMode p \<noteq> Work \<and> autoStartPomodoros (settings (timer p)))
      then [(now + 1000, AutoStart)] else []) @ [(now + 10000, GraceExpiry)]"
  "currentMode p = Work \<Longrightarrow>
     nextMode (onTimerComplete now p) = ShortBreak \<or> nextMode (onTimerComplete now p) = LongBreak"
  by (simp_all add: plugin_defs Let_def)

text \<open>
  What happens when the plugin is in Work mode as a Work session of a reachable engine
  reaches its deadline \<open>t\<close> (the interval callback runs at \<open>now\<close>) and no older one-shot is
  pending. Afterwards the completion is pending, the engine is Idle and \<open>nextMode\<close> is a
  break. With \<open>autoStartBreaks\<close> set, the auto-start is due at \<open>now + 1000\<close>: when it runs
  (\<open>t1\<close>) with the completion still pending, \<open>currentMode\<close> becomes \<open>nextMode\<close> and the
  engine is started in it with the configured length of that break; when the completion was
  acknowledged before, the auto-start leaves the engine as it was, Idle. With
  \<open>autoStartBreaks\<close> not set, no auto-start is pending, and after the acknowledgement due at
  \<open>now + 10000\<close> has run (\<open>t2\<close>) the engine is still Idle, the completion is no longer
  pending and \<open>currentMode\<close> is \<open>nextMode\<close>.
\<close>

lemma auto_start_in_work_mode:
  assumes "reachable (timer p)" and "currentMode p = Work" and "state (timer p) = Work"
    and "intervalId (timer p) = Some h"
    and "targetTime (timer p) = Some t" and "t \<noteq> 0" and "t \<le> now"
    and "timeouts p = []" and "now + 1000 \<le> t1" and "now + 10000 \<le> t2"
  shows "isSessionComplete (intervalFires h now p) \<and>
    state (timer (intervalFires h now p)) = Idle \<and>
    currentMode (intervalFires h now p) = Work \<and>
    (nextMode (intervalFires h now p) = ShortBreak \<or>
     nextMode (intervalFires h now p) = LongBreak) \<and>
    (autoStartBreaks (settings (timer p)) \<longrightarrow>
       timeouts (intervalFires h now p) = [(now + 1000, AutoStart), (now + 10000, GraceExpiry)] \<and>
       currentMode (timeoutFires AutoStart t1 (intervalFires h now p)) =
         nextMode (intervalFires h now p) \<and>
       state (timer (timeoutFires AutoStart t1 (intervalFires h now p))) =
         nextMode (intervalFires h now p) \<and>
       remainingTime (timer (timeoutFires AutoStart t1 (intervalFires h now p))) =
         (if nextMode (intervalFires h now p) = LongBreak
          then longBreakTime (settings (timer p)) else shortBreakTime (settings (timer p))) * 60 \<and>
       targetTime (timer (timeoutFires AutoStart t1 (intervalFires h now p))) =
         Some (t1 + remainingTime (timer (timeoutFires AutoStart t1 (intervalFires h now p))) * 1000) \<and>
       timer (timeoutFires AutoStart t1 (acknowledgeSessionComplete (intervalFires h now p))) =
         timer (intervalFires h now p) \<and>
       currentMode (timeoutFires AutoStart t1 (acknowledgeSessionComplete (intervalFires h now p))) =
         nextMode (intervalFires h now p)) \<and>
    (\<not> autoStartBreaks (settings (timer p)) \<longrightarrow>
       timeouts (intervalFires h now p) = [(now + 10000, GraceExpiry)] \<and>
       timeoutFires AutoStart t1 (intervalFires h now p) = intervalFires h now p \<and>
       state (timer (timeoutFires GraceExpiry t2 (intervalFires h now p))) = Idle \<and>
       \<not> isSessionComplete (timeoutFires GraceExpiry t2 (intervalFires h now p)) \<and>
       currentMode (timeoutFires GraceExpiry t2 (intervalFires h now p)) =
         nextMode (intervalFires h now p))"
proof -
  let ?e = "fire h now (timer p)"
  let ?q = "intervalFires h now p"
  from assms(1) have inv: "engine_inv (timer p)" by (rule reachable_inv)
  with assms(3,4) have hs: "h \<noteq> 0" "handles (timer p) = [h]"
    by (auto simp: engine_inv_def isRunning_def)
  from assms(7) have late: "ceil_ms (t - now) \<le> 0" by (simp add: ceil_ms_nonpos)
  note fin = tick_completes [OF hs(2) hs(1) assms(4) assms(5) assms(6) late]
  have q: "?q = onTimerComplete now (p\<lparr>timer := ?e\<rparr>)"
    by (rule intervalFires_completes [OF hs(2) hs(1) assms(4) assms(5) assms(6) late])
  have base: "isSessionComplete ?q" "timer ?q = ?e" "currentMode ?q = Work"
    "nextMode ?q = ShortBreak \<or> nextMode ?q = LongBreak"
    "timeouts ?q = (if autoStartBreaks (settings (timer p)) then [(now + 1000, AutoStart)] else [])
       @ [(now + 10000, GraceExpiry)]"
    using assms(2,8) by (simp_all add: q onTimerComplete_fields fin(8))
  have idle: "state (timer ?q) = Idle" "remainingTime (timer ?q) = 0"
    "settings (timer ?q) = settings (timer p)"
    by (simp_all add: base(2) fin)
  have on: "autoStartBreaks (settings (timer p)) \<longrightarrow>
       timeouts ?q = [(now + 1000, AutoStart), (now + 10000, GraceExpiry)] \<and>
       currentMode (timeoutFires AutoStart t1 ?q) = nextMode ?q \<and>
       state (timer (timeoutFires AutoStart t1 ?q)) = nextMode ?q \<and>
       remainingTime (timer (timeoutFires AutoStart t1 ?q)) =
         (if nextMode ?q = LongBreak
          then longBreakTime (settings (timer p)) else shortBreakTime (settings (timer p))) * 60 \<and>
       targetTime (timer (timeoutFires AutoStart t1 ?q)) =
         Some (t1 + remainingTime (timer (timeoutFires AutoStart t1 ?q)) * 1000) \<and>
       timer (timeoutFires AutoStart t1 (acknowledgeSessionComplete ?q)) = timer ?q \<and>
       currentMode (timeoutFires AutoStart t1 (acknowledgeSessionComplete ?q)) = nextMode ?q"
  proof
    assume a: "autoStartBreaks (settings (timer p))"
    with base(5) have ts: "timeouts ?q = [(now + 1000, AutoStart), (now + 10000, GraceExpiry)]"
      by simp
    have f: "timeoutFires AutoStart t1 ?q =
        (?q\<lparr>timeouts := [(now + 10000, GraceExpiry)], currentMode := nextMode ?q\<rparr>)
          \<lparr>timer := start t1 (nextMode ?q) (timer ?q)\<rparr>"
      using assms(9) base(1) by (simp add: timeoutFires_def ts Let_def)
    have k: "nextMode ?q \<noteq> Idle" "nextMode ?q \<noteq> Paused" using base(4) by auto
    have r0: "remainingTime (timer ?q) \<le> 0" using idle(2) by simp
    have rem: "remainingTime (start t1 (nextMode ?q) (timer ?q)) =
         (if nextMode ?q = LongBreak
          then longBreakTime (settings (timer p)) else shortBreakTime (settings (timer p))) * 60"
      using base(4) idle(3) by (auto simp: start_fresh [OF r0])
    have g: "timeoutFires AutoStart t1 (acknowledgeSessionComplete ?q) =
        (acknowledgeSessionComplete ?q)\<lparr>timeouts := [(now + 10000, GraceExpiry)]\<rparr>"
      using assms(9) by (simp add: timeoutFires_def acknowledgeSessionComplete_def Let_def ts)
    have ack: "timer (acknowledgeSessionComplete ?q) = timer ?q"
      "currentMode (acknowledgeSessionComplete ?q) = nextMode ?q"
      using idle(1) by (simp_all add: acknowledgeSessionComplete_def Let_def isRunning_def)
    show "timeouts ?q = [(now + 1000, AutoStart), (now + 10000, GraceExpiry)] \<and>
       currentMode (timeoutFires AutoStart t1 ?q) = nextMode ?q \<and>
       state (timer (timeoutFires AutoStart t1 ?q)) = nextMode ?q \<and>
       remainingTime (timer (timeoutFires AutoStart t1 ?q)) =
         (if nextMode ?q = LongBreak
          then longBreakTime (settings (timer p)) else shortBreakTime (settings (timer p))) * 60 \<and>
       targetTime (timer (timeoutFires AutoStart t1 ?q)) =
         Some (t1 + remainingTime (timer (timeoutFires AutoStart t1 ?q)) * 1000) \<and>
       timer (timeoutFires AutoStart t1 (acknowledgeSessionComplete ?q)) = timer ?q \<and>
       currentMode (timeoutFires AutoStart t1 (acknowledgeSessionComplete ?q)) = nextMode ?q"
      using ts rem k ack by (simp add: f g start_kind)
  qed
  have off: "\<not> autoStartBreaks (settings (timer p)) \<longrightarrow>
       timeouts ?q = [(now + 10000, GraceExpiry)] \<and>
       timeoutFires AutoStart t1 ?q = ?q \<and>
       state (timer (timeoutFires GraceExpiry t2 ?q)) = Idle \<and>
       \<not> isSessionComplete (timeoutFires GraceExpiry t2 ?q) \<and>
       currentMode (timeoutFires GraceExpiry t2 ?q) = nextMode ?q"
  proof
    assume a: "\<not> autoStartBreaks (settings (timer p))"
    with base(5) have ts: "timeouts ?q = [(now + 10000, GraceExpiry)]" by simp
    have f: "timeoutFires AutoStart t1 ?q = ?q"
      by (simp add: timeoutFires_def ts)
    have g: "timeoutFires GraceExpiry t2 ?q = acknowledgeSessionComplete (?q\<lparr>timeouts := []\<rparr>)"
      using assms(10) by (simp add: timeoutFires_def ts)
    show "timeouts ?q = [(now + 10000, GraceExpiry)] \<and>
       timeoutFires AutoStart t1 ?q = ?q \<and>
       state (timer (timeoutFires GraceExpiry t2 ?q)) = Idle \<and>
       \<not> isSessionComplete (timeoutFires GraceExpiry t2 ?q) \<and>
       currentMode (timeoutFires GraceExpiry t2 ?q) = nextMode ?q"
      using ts f idle(1)
      by (simp add: g acknowledgeSessionComplete_def Let_def isRunning_def)
  qed
  from base(1,3,4) idle(1) on off show ?thesis by blast
qed


text \<open>
  With the default interval of 4 and a count of 3, Work selects LongBreak; LongBreak selects
  Work without counting.
\<close>

lemma advance_from_currentMode_example:
  "longBreakInterval (settings (timer ((onload DEFAULT_SETTINGS)\<lparr>completedPomodoros := 3\<rparr>))) \<noteq> 0 \<and>
   currentMode ((onload DEFAULT_SETTINGS)\<lparr>completedPomodoros := 3\<rparr>) = Work \<and>
   completedPomodoros (advanceToNextMode 5000 ((onload DEFAULT_SETTINGS)\<lparr>completedPomodoros := 3\<rparr>)) = 4 \<and>
   nextMode (advanceToNextMode 5000 ((onload DEFAULT_SETTINGS)\<lparr>completedPomodoros := 3\<rparr>)) = LongBreak \<and>
   currentMode ((onload DEFAULT_SETTINGS)\<lparr>currentMode := LongBreak\<rparr>) = LongBreak \<and>
   completedPomodoros (advanceToNextMode 5000 ((onload DEFAULT_SETTINGS)\<lparr>currentMode := LongBreak\<rparr>)) = 0 \<and>
   nextMode (advanceToNextMode 5000 ((onload DEFAULT_SETTINGS)\<lparr>currentMode := LongBreak\<rparr>)) = Work"
proof -
  let ?p = "(onload DEFAULT_SETTINGS)\<lparr>completedPomodoros := 3\<rparr>"
  let ?q = "(onload DEFAULT_SETTINGS)\<lparr>currentMode := LongBreak\<rparr>"
  have b: "longBreakInterval (settings (timer ?p)) \<noteq> 0" "longBreakInterval (settings (timer ?q)) \<noteq> 0"
    "longBreakInterval (settings (timer ?p)) = 4"
    by (simp_all add: onload_def PomoTimer_new_def DEFAULT_SETTINGS_def)
  have m: "currentMode ?p = Work" "currentMode ?q = LongBreak" "completedPomodoros ?p = 3"
    "completedPomodoros ?q = 0"
    by (simp_all add: onload_def)
  show ?thesis
    using b m advance_from_currentMode [OF b(1), of 5000]
      advance_from_currentMode [OF b(2), of 5000]
    by simp
qed

text \<open>
  C7 at a plugin whose Work session is ticking, at an idle one with a completion pending, and
  at the plugin as loaded.
\<close>

theorem mode_switch_only_when_idle_witness:
  "state (timer (handlePauseResumeClick 1000 (onload DEFAULT_SETTINGS))) \<noteq> Idle \<and>
   currentMode (handleCycleModeClick (handlePauseResumeClick 1000 (onload DEFAULT_SETTINGS))) = Work \<and>
   notices (handleCycleModeClick (handlePauseResumeClick 1000 (onload DEFAULT_SETTINGS))) =
     [''Reset the timer to switch modes''] \<and>
   state (timer ((onload DEFAULT_SETTINGS)\<lparr>nextMode := LongBreak, isSessionComplete := True\<rparr>)) = Idle \<and>
   isSessionComplete ((onload DEFAULT_SETTINGS)\<lparr>nextMode := LongBreak, isSessionComplete := True\<rparr>) \<and>
   currentMode (handleCycleModeClick
     ((onload DEFAULT_SETTINGS)\<lparr>nextMode := LongBreak, isSessionComplete := True\<rparr>)) = LongBreak \<and>
   state (timer (onload DEFAULT_SETTINGS)) = Idle \<and> \<not> isSessionComplete (onload DEFAULT_SETTINGS) \<and>
   currentMode (onload DEFAULT_SETTINGS) = Work \<and>
   currentMode (handleCycleModeClick (onload DEFAULT_SETTINGS)) = ShortBreak"
proof -
  let ?i = "onload DEFAULT_SETTINGS"
  let ?r = "handlePauseResumeClick 1000 ?i"
  let ?c = "?i\<lparr>nextMode := LongBreak, isSessionComplete := True\<rparr>"
  have r: "?r = ?i\<lparr>timer := start 1000 Work (PomoTimer_new DEFAULT_SETTINGS)\<rparr>"
    by (simp add: handlePauseResumeClick_def onload_def isRunning_def getState_def PomoTimer_new_def)
  have a: "state (timer ?r) \<noteq> Idle" "currentMode ?r = Work" "notices ?r = []"
    by (simp_all add: r start_kind) (simp_all add: onload_def)
  have b: "state (timer ?c) = Idle" "isSessionComplete ?c" "nextMode ?c = LongBreak"
    by (simp_all add: onload_def PomoTimer_new_def)
  have c: "state (timer ?i) = Idle" "\<not> isSessionComplete ?i" "currentMode ?i = Work"
    by (simp_all add: onload_def PomoTimer_new_def)
  show ?thesis
    using a b c mode_switch_only_when_idle [of ?r] mode_switch_only_when_idle [of ?c]
      mode_switch_only_when_idle [of ?i]
    by auto
qed

text \<open>
  The same at a 1-minute Work session started by hand at 1000 ms whose callback runs at
  62500 ms, once with \<open>autoStartBreaks\<close> set (the 5-minute ShortBreak starts at 63500 ms) and
  once without.
\<close>

lemma auto_start_in_work_mode_example:
  "reachable (timer (handlePauseResumeClick 1000
      (onload (DEFAULT_SETTINGS\<lparr>workTime := 1, autoStartBreaks := True\<rparr>)))) \<and>
   state (timer (timeoutFires AutoStart 63500 (intervalFires 1 62500 (handlePauseResumeClick 1000
      (onload (DEFAULT_SETTINGS\<lparr>workTime := 1, autoStartBreaks := True\<rparr>)))))) = ShortBreak \<and>
   remainingTime (timer (timeoutFires AutoStart 63500 (intervalFires 1 62500
      (handlePauseResumeClick 1000
        (onload (DEFAULT_SETTINGS\<lparr>workTime := 1, autoStartBreaks := True\<rparr>)))))) = 300 \<and>
   state (timer (timeoutFires AutoStart 63500 (acknowledgeSessionComplete (intervalFires 1 62500
      (handlePauseResumeClick 1000
        (onload (DEFAULT_SETTINGS\<lparr>workTime := 1, autoStartBreaks := True\<rparr>))))))) = Idle \<and>
   state (timer (timeoutFires GraceExpiry 72500 (intervalFires 1 62500 (handlePauseResumeClick 1000
      (onload (DEFAULT_SETTINGS\<lparr>workTime := 1\<rparr>)))))) = Idle \<and>
   timeoutFires AutoStart 63500 (intervalFires 1 62500 (handlePauseResumeClick 1000
      (onload (DEFAULT_SETTINGS\<lparr>workTime := 1\<rparr>)))) =
     intervalFires 1 62500 (handlePauseResumeClick 1000 (onload (DEFAULT_SETTINGS\<lparr>workTime := 1\<rparr>)))"
proof -
  let ?on = "DEFAULT_SETTINGS\<lparr>workTime := 1, autoStartBreaks := True\<rparr>"
  let ?off = "DEFAULT_SETTINGS\<lparr>workTime := 1\<rparr>"
  let ?p = "handlePauseResumeClick 1000 (onload ?on)"
  let ?q = "handlePauseResumeClick 1000 (onload ?off)"
  have p: "?p = (onload ?on)\<lparr>timer := start 1000 Work (PomoTimer_new ?on)\<rparr>"
    by (simp add: handlePauseResumeClick_def onload_def isRunning_def getState_def PomoTimer_new_def)
  have q: "?q = (onload ?off)\<lparr>timer := start 1000 Work (PomoTimer_new ?off)\<rparr>"
    by (simp add: handlePauseResumeClick_def onload_def isRunning_def getState_def PomoTimer_new_def)
  have rp: "reachable (timer ?p)" and rq: "reachable (timer ?q)"
    by (simp_all add: p q reachable_started)
  have mp: "currentMode ?p = Work" "timeouts ?p = []" and mq: "currentMode ?q = Work" "timeouts ?q = []"
    by (simp_all add: p q) (simp_all add: onload_def)
  have sp: "state (timer ?p) = Work" "intervalId (timer ?p) = Some 1"
    "targetTime (timer ?p) = Some 61000" "settings (timer ?p) = ?on"
    by (simp_all add: p) (simp_all add: start_kind start_fresh PomoTimer_new_def)
  have sq: "state (timer ?q) = Work" "intervalId (timer ?q) = Some 1"
    "targetTime (timer ?q) = Some 61000" "settings (timer ?q) = ?off"
    by (simp_all add: q) (simp_all add: start_kind start_fresh PomoTimer_new_def)
  have z: "(61000::int) \<noteq> 0" by simp
  have c: "(61000::int) \<le> 62500" by simp
  have t1: "(62500::int) + 1000 \<le> 63500" and t2: "(62500::int) + 10000 \<le> 72500" by simp_all
  have n: "nextMode (intervalFires 1 62500 ?p) = ShortBreak"
    unfolding p
    by (simp add: intervalFires_def engine_defs plugin_defs onload_def PomoTimer_new_def
        DEFAULT_SETTINGS_def Let_def ceil_ms_def js_rem_def)
  note on = auto_start_in_work_mode [OF rp mp(1) sp(1) sp(2) sp(3) z c mp(2) t1 t2]
  note off = auto_start_in_work_mode [OF rq mq(1) sq(1) sq(2) sq(3) z c mq(2) t1 t2]
  have a_on: "autoStartBreaks (settings (timer ?p))" by (simp add: sp(4))
  have a_off: "\<not> autoStartBreaks (settings (timer ?q))"
    unfolding sq(4) by (simp add: DEFAULT_SETTINGS_def)
  have sb: "shortBreakTime (settings (timer ?p)) = 5"
    unfolding sp(4) by (simp add: DEFAULT_SETTINGS_def)
  from on a_on n sb
  have 1: "state (timer (timeoutFires AutoStart 63500 (intervalFires 1 62500 ?p))) = ShortBreak"
    "remainingTime (timer (timeoutFires AutoStart 63500 (intervalFires 1 62500 ?p))) = 300"
    "state (timer (timeoutFires AutoStart 63500
       (acknowledgeSessionComplete (intervalFires 1 62500 ?p)))) = Idle"
    by simp_all
  from off a_off
  have 2: "state (timer (timeoutFires GraceExpiry 72500 (intervalFires 1 62500 ?q))) = Idle"
    "timeoutFires AutoStart 63500 (intervalFires 1 62500 ?q) = intervalFires 1 62500 ?q"
    by simp_all
  from rp 1 2 show ?thesis by simp
qed

text \<open>
  C8 fails on the code, by the defect shown for C6: whether an auto-start is scheduled is
  decided on \<open>currentMode\<close>, which the uncancelled acknowledgement has overwritten while
  the Work session was paused. In the run \<open>stale_acknowledgement\<close> with \<open>autoStartBreaks\<close>
  set, the Work session completes at 132000 ms and the completion stays unacknowledged, but
  no auto-start is scheduled and the engine is still Idle after 1000 ms. With
  \<open>autoStartBreaks\<close> not set and \<open>autoStartPomodoros\<close> set, the engine is started 1000 ms
  after the Work session completes.
\<close>

theorem work_completion_without_auto_start:
  "reported (timer (play (stale_acknowledgement @ [(132000, IntervalRuns 3)])
     (onload (DEFAULT_SETTINGS\<lparr>workTime := 1, autoStartBreaks := True\<rparr>)))) =
     Some (OnStateChange Work) \<and>
   isSessionComplete (play (stale_acknowledgement @ [(132000, IntervalRuns 3)])
     (onload (DEFAULT_SETTINGS\<lparr>workTime := 1, autoStartBreaks := True\<rparr>))) \<and>
   timeouts (play (stale_acknowledgement @ [(132000, IntervalRuns 3)])
     (onload (DEFAULT_SETTINGS\<lparr>workTime := 1, autoStartBreaks := True\<rparr>))) =
     [(142000, GraceExpiry)] \<and>
   state (timer (play
     (stale_acknowledgement @ [(132000, IntervalRuns 3), (133000, TimeoutRuns AutoStart)])
     (onload (DEFAULT_SETTINGS\<lparr>workTime := 1, autoStartBreaks := True\<rparr>)))) = Idle \<and>
   state (timer (play
     (stale_acknowledgement @ [(132000, IntervalRuns 3), (133000, TimeoutRuns AutoStart)])
     (onload (DEFAULT_SETTINGS\<lparr>workTime := 1, autoStartPomodoros := True\<rparr>)))) = Work"
  by (simp add: run_defs numeral_3_eq_3)

end
